theory Spec2Isabelle
  imports Main
begin

section \<open>The React analyzer documentation server (src/index.ts)\<close>

text \<open>
  The server lists projects under a root folder, walks a project folder for
  \<open>.jsx\<close>/\<open>.tsx\<close> files, hands each file to the external analyzer and renders
  the analyses as markdown.  The functions of \<open>src/index.ts\<close> are embedded
  below under their own names.

  Strings are \<^typ>\<open>string\<close>, read as UTF-8 bytes: every comparison the code
  makes (\<open>===\<close> with an ASCII literal, \<open>startsWith\<close>, \<open>endsWith\<close>, the test for
  the empty string) gives the same answer on bytes as on JavaScript's code
  units.  A field that may be missing is an \<^typ>\<open>'a option\<close>; \<open>null\<close> and
  \<open>undefined\<close> are both \<^term>\<open>None\<close>, since the code only tests them for
  truthiness.  A thrown exception is a value \<^term>\<open>Inl e\<close> of a sum type, so
  that a function which lets an exception escape returns \<^term>\<open>Inl e\<close>.
  The calls of \<open>console.error\<close> write to the standard error stream and change
  no value the functions return; they are left out.  The request handlers of
  the server only dispatch to the functions below.
\<close>

subsection \<open>Strings\<close>

definition backtick :: string where
  "backtick = ''`''"

definition newline :: string where
  "newline = ''\<newline>''"

text \<open>The marks U+2713 and U+2717 of the props table, in UTF-8.\<close>

definition check_mark :: string where
  "check_mark = [CHR 0xE2, CHR 0x9C, CHR 0x93]"

definition cross_mark :: string where
  "cross_mark = [CHR 0xE2, CHR 0x9C, CHR 0x97]"

text \<open>\<open>String.prototype.startsWith\<close>, \<open>endsWith\<close> and \<open>includes\<close> (here \<open>str_includes\<close>).\<close>

definition startsWith :: "string \<Rightarrow> string \<Rightarrow> bool" where
  "startsWith s p = (take (length p) s = p)"

definition endsWith :: "string \<Rightarrow> string \<Rightarrow> bool" where
  "endsWith s p = (length p \<le> length s \<and> drop (length s - length p) s = p)"


text \<open>
  Truthiness of a string field that may be missing: a missing field and the
  empty string are both falsy.
\<close>

fun truthy :: "string option \<Rightarrow> bool" where
  "truthy None = False"
| "truthy (Some s) = (s \<noteq> [])"

subsection \<open>The analyzer's data\<close>

text \<open>
  The result of \<open>analyzeReactFile\<close>: an object with a \<open>components\<close> array; a
  component has a \<open>name\<close>, maybe a \<open>wrapperFn\<close>, and \<open>props\<close>, an object from
  prop names to descriptors.  An object is kept as the list of its entries in
  the order \<open>Object.entries\<close> yields them.  The selectors \<open>pd_x\<close> and
  \<open>comp_x\<close> stand for the fields \<open>x\<close> of a descriptor and of a component; the
  flag \<open>optional\<close> of a descriptor is false when the field is missing.
\<close>

datatype PropDescriptor = PropDescriptor
  (pd_type: string)
  (pd_optional: bool)
  (pd_defaultValue: "string option")
  (pd_elementType: "PropDescriptor option")
  (pd_props: "(string \<times> PropDescriptor) list option")
  (pd_typeName: "string option")

record Component =
  comp_name :: string
  comp_wrapperFn :: "string option"
  comp_props :: "(string \<times> PropDescriptor) list option"

record ComponentAnalysis =
  components :: "Component list option"

subsection \<open>formatPropType\<close>

text \<open>
  The string \<open>formatPropType\<close> returns when it returns.  Whether it returns
  depends on the call stack as well; that is accounted for further down, in
  \<open>formatPropType_on_stack\<close>.
\<close>

fun formatPropType :: "PropDescriptor \<Rightarrow> string" where
  "formatPropType (PropDescriptor type optional defaultValue elementType props typeName) =
     (if type = ''array'' \<and> elementType \<noteq> None then
        type @ ''<'' @ formatPropType (the elementType) @ ''>''
      else if type = ''object'' \<and> props \<noteq> None then
        (if truthy typeName then backtick @ the typeName @ backtick else ''`object`'')
      else if type = ''function'' then ''`function`''
      else backtick @ type @ backtick)"

text \<open>
  A descriptor that is \<open>base\<close> inside \<open>n\<close> array levels, each level having the
  type \<open>array\<close> and an element type.
\<close>

fun array_levels :: "nat \<Rightarrow> PropDescriptor \<Rightarrow> PropDescriptor \<Rightarrow> bool" where
  "array_levels 0 base d = (d = base)"
| "array_levels (Suc n) base d =
     (pd_type d = ''array'' \<and>
      (case pd_elementType d of None \<Rightarrow> False | Some e \<Rightarrow> array_levels n base e))"

subsection \<open>generateComponentMarkdown\<close>

text \<open>The loop over \<open>Object.entries(component.props)\<close>: one table row per prop.\<close>

fun propRows :: "(string \<times> PropDescriptor) list \<Rightarrow> string \<Rightarrow> string" where
  "propRows [] markdown = markdown"
| "propRows ((propName, propDetails) # rest) markdown =
     (let type = formatPropType propDetails;
          optional = (if pd_optional propDetails then check_mark else cross_mark);
          defaultValue =
            (if truthy (pd_defaultValue propDetails)
             then backtick @ the (pd_defaultValue propDetails) @ backtick
             else '''')
      in propRows rest
           (markdown @ ''| `'' @ propName @ ''` | '' @ type @ '' | '' @ optional @
            '' | '' @ defaultValue @ '' |'' @ newline))"

text \<open>The body of the loop over the components, appending to \<open>markdown\<close>.\<close>

definition componentSection :: "Component \<Rightarrow> string \<Rightarrow> string" where
  "componentSection component markdown =
     (let markdown = markdown @ ''## '' @ comp_name component @ newline @ newline;
          markdown =
            (if truthy (comp_wrapperFn component)
             then markdown @ ''*Wrapped with: '' @ the (comp_wrapperFn component) @ ''*'' @
                  newline @ newline
             else markdown);
          markdown = markdown @ ''### Props'' @ newline @ newline
      in if comp_props component = None \<or> length (the (comp_props component)) = 0
         then markdown @ ''*No props*'' @ newline @ newline
         else
           (let markdown = markdown @ ''| Prop | Type | Optional | Default |'' @ newline;
                markdown = markdown @ ''|------|------|----------|--------|'' @ newline;
                markdown = propRows (the (comp_props component)) markdown
            in markdown @ newline))"

fun componentSections :: "Component list \<Rightarrow> string \<Rightarrow> string" where
  "componentSections [] markdown = markdown"
| "componentSections (component # rest) markdown =
     componentSections rest (componentSection component markdown)"

definition generateComponentMarkdown :: "ComponentAnalysis option \<Rightarrow> string" where
  "generateComponentMarkdown analysisResult =
     (if analysisResult = None
         \<or> components (the analysisResult) = None
         \<or> length (the (components (the analysisResult))) = 0
      then ''**No components found**''
      else componentSections (the (components (the analysisResult))) '''')"

subsection \<open>Exceptions\<close>

datatype js_error = JsError string

text \<open>\<open>try { body } catch (error) { handler }\<close>, and sequencing of two steps.\<close>

definition try_catch ::
  "js_error + 'a \<Rightarrow> (js_error \<Rightarrow> js_error + 'a) \<Rightarrow> js_error + 'a" where
  "try_catch body handler = (case body of Inl error \<Rightarrow> handler error | Inr v \<Rightarrow> Inr v)"

definition and_then :: "js_error + 'a \<Rightarrow> ('a \<Rightarrow> js_error + 'b) \<Rightarrow> js_error + 'b" where
  "and_then r k = (case r of Inl error \<Rightarrow> Inl error | Inr v \<Rightarrow> k v)"

subsection \<open>formatPropType on the call stack\<close>

text \<open>
  \<open>formatPropType\<close> calls itself once for each array level, and each call
  that has not returned holds a frame of the engine's call stack, which is
  finite.  \<open>formatPropType_on_stack frames\<close> is the same code run when the
  stack has room for \<open>frames\<close> more nested calls of the function: a call
  made when no room is left throws \<open>RangeError\<close>, and nothing in
  \<open>formatPropType\<close> catches it.  How large \<open>frames\<close> is depends on the engine
  and on the caller; it is a parameter.
\<close>

fun formatPropType_on_stack :: "nat \<Rightarrow> PropDescriptor \<Rightarrow> js_error + string" where
  "formatPropType_on_stack 0 propDetails = Inl (JsError ''RangeError'')"
| "formatPropType_on_stack (Suc frames)
       (PropDescriptor type optional defaultValue elementType props typeName) =
     (if type = ''array'' \<and> elementType \<noteq> None then
        (case formatPropType_on_stack frames (the elementType) of
           Inl error \<Rightarrow> Inl error
         | Inr element \<Rightarrow> Inr (type @ ''<'' @ element @ ''>''))
      else if type = ''object'' \<and> props \<noteq> None then
        Inr (if truthy typeName then backtick @ the typeName @ backtick else ''`object`'')
      else if type = ''function'' then Inr ''`function`''
      else Inr (backtick @ type @ backtick))"

text \<open>
  The number of nested calls a descriptor asks for beyond the first: the
  array levels with an element type at its top.
\<close>

fun array_depth :: "PropDescriptor \<Rightarrow> nat" where
  "array_depth (PropDescriptor type optional defaultValue elementType props typeName) =
     (if type = ''array'' \<and> elementType \<noteq> None
      then Suc (array_depth (the elementType)) else 0)"

text \<open>A base descriptor inside \<open>n\<close> array levels.\<close>

fun wrap_arrays :: "nat \<Rightarrow> PropDescriptor \<Rightarrow> PropDescriptor" where
  "wrap_arrays 0 base = base"
| "wrap_arrays (Suc n) base =
     PropDescriptor ''array'' False None (Some (wrap_arrays n base)) None None"

subsection \<open>The file system and the other collaborators\<close>

text \<open>
  What \<open>fs.readdirSync(dir, {withFileTypes: true})\<close> sees below a path is a
  finite tree.  An entry is a regular file, a directory, or something else
  (a symbolic link, a socket, a device): \<open>Dirent.isFile\<close> and
  \<open>Dirent.isDirectory\<close> are both false for the last kind.  A directory
  carries a flag telling whether it can be listed, and its entries in the
  order of enumeration; the entries of a directory that cannot be listed are
  there, but the code cannot see them.
\<close>

type_synonym path = string

datatype fsnode = File | Other | Dir bool "(string \<times> fsnode) list"

fun isDirectory :: "fsnode \<Rightarrow> bool" where
  "isDirectory (Dir listable entries) = True"
| "isDirectory _ = False"

fun isFile :: "fsnode \<Rightarrow> bool" where
  "isFile File = True"
| "isFile _ = False"

text \<open>
  \<open>fs.readdirSync\<close> on what is found at a path (\<^term>\<open>None\<close>: nothing is
  there).  It throws unless it is given a directory that can be listed.
\<close>

fun readdirSync :: "fsnode option \<Rightarrow> js_error + (string \<times> fsnode) list" where
  "readdirSync None = Inl (JsError ''ENOENT'')"
| "readdirSync (Some (Dir listable entries)) =
     (if listable then Inr entries else Inl (JsError ''EACCES''))"
| "readdirSync (Some _) = Inl (JsError ''ENOTDIR'')"

text \<open>
  The collaborators the code calls and does not define: the tree found at a
  path, \<open>fs.readFileSync(path, "utf8")\<close>, the analyzer of the package
  \<open>react-analyzer\<close> (it returns a value, maybe \<open>null\<close>, or throws), and the
  functions \<open>join\<close>, \<open>relative\<close> and \<open>basename\<close> of Node's \<open>path\<close> module,
  which do not throw on strings.  They are parameters of the model.
\<close>

record world =
  fs_at :: "path \<Rightarrow> fsnode option"
  readFileSync :: "path \<Rightarrow> js_error + string"
  analyzeReactFile :: "string \<Rightarrow> string \<Rightarrow> js_error + ComponentAnalysis option"
  path_join :: "path \<Rightarrow> string \<Rightarrow> path"
  path_relative :: "path \<Rightarrow> path \<Rightarrow> path"
  path_basename :: "path \<Rightarrow> string"

definition PROJECT_ROOT :: path where
  "PROJECT_ROOT = ''/Users/azer/code''"

subsection \<open>listProjects\<close>

definition listProjects :: "world \<Rightarrow> js_error + string list" where
  "listProjects w =
     try_catch
       (and_then (readdirSync (fs_at w PROJECT_ROOT))
          (\<lambda>entries.
             Inr (map fst
                    (filter (\<lambda>entry. isDirectory (snd entry) \<and> \<not> startsWith (fst entry) ''.'')
                       entries))))
       (\<lambda>error. Inr [])"

subsection \<open>listReactFiles\<close>

text \<open>
  \<open>scanDirectory\<close> pushes onto the array \<open>reactFiles\<close> of the enclosing call,
  so the array is passed in and returned, together with the exception that
  leaves the function, if any: what was pushed before a throw stays pushed.
  \<open>scanEntries\<close> is the \<open>for\<close> loop inside the \<open>try\<close> block.  The second
  argument of \<open>scanDirectory\<close> is what the file system holds at \<open>directory\<close>.
\<close>

function scanDirectory ::
    "world \<Rightarrow> path \<Rightarrow> fsnode option \<Rightarrow> path list \<Rightarrow> js_error option \<times> path list"
  and scanEntries ::
    "world \<Rightarrow> path \<Rightarrow> (string \<times> fsnode) list \<Rightarrow> path list \<Rightarrow> js_error option \<times> path list"
where
  "scanDirectory w directory node reactFiles =
     (case readdirSync node of
        Inl error \<Rightarrow> (None, reactFiles)
      | Inr entries \<Rightarrow>
          (case scanEntries w directory entries reactFiles of
             (Some error, reactFiles') \<Rightarrow> (None, reactFiles')
           | (None, reactFiles') \<Rightarrow> (None, reactFiles')))"
| "scanEntries w directory [] reactFiles = (None, reactFiles)"
| "scanEntries w directory ((name, node) # rest) reactFiles =
     (let fullPath = path_join w directory name in
      if isDirectory node then
        (case scanDirectory w fullPath (Some node) reactFiles of
           (Some error, reactFiles') \<Rightarrow> (Some error, reactFiles')
         | (None, reactFiles') \<Rightarrow> scanEntries w directory rest reactFiles')
      else if isFile node \<and> (endsWith name ''.jsx'' \<or> endsWith name ''.tsx'') then
        scanEntries w directory rest (reactFiles @ [fullPath])
      else scanEntries w directory rest reactFiles)"
  by pat_completeness auto
termination
  by (relation "measure (\<lambda>x. case x of
          Inl (w, d, n, fs) \<Rightarrow> 2 * size_option size n
        | Inr (w, d, es, fs) \<Rightarrow> 2 * size_list (size_prod (\<lambda>_. 0) size) es + 1)")
     (auto elim!: readdirSync.elims split: if_splits)

definition listReactFiles :: "world \<Rightarrow> string \<Rightarrow> js_error + path list" where
  "listReactFiles w subFolder =
     (let folderPath = path_join w PROJECT_ROOT subFolder;
          reactFiles = []
      in case scanDirectory w folderPath (fs_at w folderPath) reactFiles of
           (Some error, reactFiles') \<Rightarrow> Inl error
         | (None, reactFiles') \<Rightarrow> Inr reactFiles')"

text \<open>
  The files the scan is to find, stated without the scan: \<open>p\<close> is the path
  of a regular file with a recognized extension that is reached from
  \<open>directory\<close> through directories that can be listed, whatever their names.
\<close>

inductive component_file_under :: "world \<Rightarrow> path \<Rightarrow> fsnode \<Rightarrow> path \<Rightarrow> bool"
  for w :: world
where
  file_here:
    "\<lbrakk>(name, File) \<in> set entries; endsWith name ''.jsx'' \<or> endsWith name ''.tsx''\<rbrakk>
     \<Longrightarrow> component_file_under w directory (Dir True entries) (path_join w directory name)"
| file_below:
    "\<lbrakk>(name, node) \<in> set entries; isDirectory node;
      component_file_under w (path_join w directory name) node p\<rbrakk>
     \<Longrightarrow> component_file_under w directory (Dir True entries) p"

definition entry_files :: "world \<Rightarrow> path \<Rightarrow> string \<times> fsnode \<Rightarrow> path set" where
  "entry_files w directory entry =
     {p. (snd entry = File \<and> (endsWith (fst entry) ''.jsx'' \<or> endsWith (fst entry) ''.tsx'')
            \<and> p = path_join w directory (fst entry))
         \<or> (isDirectory (snd entry)
            \<and> component_file_under w (path_join w directory (fst entry)) (snd entry) p)}"

subsection \<open>analyzeReactFileContents\<close>

definition analyzeReactFileContents ::
  "world \<Rightarrow> path \<Rightarrow> js_error + ComponentAnalysis option" where
  "analyzeReactFileContents w filePath =
     try_catch
       (and_then (readFileSync w filePath)
          (\<lambda>fileContent.
             let fileName = path_basename w filePath
             in analyzeReactFile w fileName fileContent))
       (\<lambda>error. Inr None)"

subsection \<open>generateProjectDocs\<close>

text \<open>The loop over the files found, appending to \<open>markdown\<close>.\<close>

fun fileSections :: "world \<Rightarrow> path list \<Rightarrow> string \<Rightarrow> js_error + string" where
  "fileSections w [] markdown = Inr markdown"
| "fileSections w (filePath # rest) markdown =
     (let relativePath = path_relative w PROJECT_ROOT filePath;
          markdown = markdown @ newline @ ''---'' @ newline @ newline @
                     ''# File: '' @ relativePath @ newline @ newline
      in and_then (analyzeReactFileContents w filePath)
           (\<lambda>analysis.
              if analysis \<noteq> None
              then fileSections w rest (markdown @ generateComponentMarkdown analysis)
              else fileSections w rest
                     (markdown @ ''*Error analyzing file*'' @ newline @ newline)))"

definition generateProjectDocs :: "world \<Rightarrow> string \<Rightarrow> js_error + string" where
  "generateProjectDocs w projectName =
     and_then (listReactFiles w projectName)
       (\<lambda>reactFiles.
          if length reactFiles = 0
          then Inr (''# '' @ projectName @ newline @ newline @ ''No React components found.'')
          else fileSections w reactFiles
                 (''# '' @ projectName @ '' Components'' @ newline @ newline))"

subsection \<open>Sample inputs\<close>

text \<open>
  Concrete values on which the theorems below are instantiated.  The sample
  path functions agree with Node's on the paths used here (absolute,
  normalized, no trailing slash; entry names without a slash).
\<close>

definition sample_join :: "path \<Rightarrow> string \<Rightarrow> path" where
  "sample_join directory name = directory @ ''/'' @ name"

definition sample_relative :: "path \<Rightarrow> path \<Rightarrow> path" where
  "sample_relative from to = drop (length from + 1) to"

definition sample_basename :: "path \<Rightarrow> string" where
  "sample_basename p = rev (takeWhile (\<lambda>c. c \<noteq> CHR ''/'') (rev p))"

definition nested_strings :: PropDescriptor where
  "nested_strings =
     PropDescriptor ''array'' False None
       (Some (PropDescriptor ''array'' True None
          (Some (PropDescriptor ''string'' False None None None None)) None None))
       None None"

definition array_of_Foo :: "(string \<times> PropDescriptor) list option \<Rightarrow> PropDescriptor" where
  "array_of_Foo element_props =
     PropDescriptor ''array'' False None
       (Some (PropDescriptor ''object'' False None None element_props (Some ''Foo'')))
       None None"

definition wrapped_button :: "string \<Rightarrow> Component" where
  "wrapped_button wrapper =
     \<lparr>comp_name = ''Button'', comp_wrapperFn = Some wrapper, comp_props = None\<rparr>"

definition button_analysis :: ComponentAnalysis where
  "button_analysis = \<lparr>components = Some [wrapped_button ''memo'']\<rparr>"

text \<open>
  A project \<open>shop\<close> with a component at the top, one in a hidden directory,
  one in a directory that cannot be listed, and two in a readable directory
  beside it, next to entries the scan is to skip.
\<close>

definition shop_tree :: fsnode where
  "shop_tree =
     Dir True
       [(''App.tsx'', File),
        (''README.md'', File),
        (''.storybook'', Dir True [(''Preview.jsx'', File)]),
        (''locked'', Dir False [(''Secret.tsx'', File)]),
        (''link.tsx'', Other),
        (''ui'', Dir True [(''Card.jsx'', File), (''card.css'', File),
                          (''forms'', Dir True [(''Input.tsx'', File)])])]"

text \<open>
  The root folder: the project \<open>shop\<close>, a project \<open>drafts\<close> without
  components, a project \<open>blog\<close> that cannot be listed, hidden entries and a
  plain file.
\<close>

definition drafts_tree :: fsnode where
  "drafts_tree = Dir True [(''todo.md'', File)]"

definition root_tree :: fsnode where
  "root_tree =
     Dir True
       [(''.git'', Dir True []),
        (''shop'', shop_tree),
        (''notes.txt'', File),
        (''drafts'', drafts_tree),
        (''.env'', File),
        (''blog'', Dir False [])]"

definition sample_analyzer :: "string \<Rightarrow> string \<Rightarrow> js_error + ComponentAnalysis option" where
  "sample_analyzer fileName fileContent =
     (if fileName = ''App.tsx'' then Inr (Some button_analysis)
      else Inl (JsError ''SyntaxError''))"

definition sample_world :: world where
  "sample_world =
     \<lparr>fs_at = (\<lambda>p. if p = ''/Users/azer/code'' then Some root_tree
                     else if p = ''/Users/azer/code/shop'' then Some shop_tree
                     else if p = ''/Users/azer/code/drafts'' then Some drafts_tree
                     else if p = ''/Users/azer/code/blog'' then Some (Dir False [])
                     else None),
      readFileSync = (\<lambda>p. if p = ''/Users/azer/code/shop/App.tsx'' then Inr ''export ...''
                           else if p = ''/Users/azer/code/shop/ui/Card.jsx'' then Inr ''<<<''
                           else Inl (JsError ''ENOENT'')),
      analyzeReactFile = sample_analyzer,
      path_join = sample_join,
      path_relative = sample_relative,
      path_basename = sample_basename\<rparr>"

text \<open>The same world after the root folder has been removed.\<close>

definition rootless_world :: world where
  "rootless_world = sample_world\<lparr>fs_at := (\<lambda>p. None)\<rparr>"


section \<open>The type formatter\<close>

text \<open>
  C1 (as amended).  The descriptor \<open>{type: "array", elementType: {type:
  "object", typeName: "Foo"}}\<close>, whose element has no \<open>props\<close> field, is
  formatted as \<open>array<`object`>\<close>: the type name is shown only for an object
  descriptor that has a \<open>props\<close> field, and then the result is
  \<open>array<`Foo`>\<close>.
\<close>

theorem formatPropType_array_of_Foo:
  "formatPropType (array_of_Foo None) = ''array<`object`>''
   \<and> formatPropType (array_of_Foo (Some [])) = ''array<`Foo`>''"
  by (simp add: array_of_Foo_def backtick_def)

text \<open>C1 as stated fails: the result is not \<open>array<`Foo`>\<close>.\<close>

theorem formatPropType_array_of_Foo_counterexample:
  "formatPropType (array_of_Foo None) \<noteq> ''array<`Foo`>''"
  by (simp add: array_of_Foo_def backtick_def)

text \<open>
  C9.  A descriptor of type \<open>object\<close> without a \<open>props\<close> field is rendered as
  the code token \<open>object\<close>, whatever its \<open>typeName\<close>: the rule that shows the
  type name needs \<open>props\<close>, and without it the last branch prints the type.
\<close>

theorem formatPropType_object_without_props:
  assumes "pd_type d = ''object''" and "pd_props d = None"
  shows "formatPropType d = ''`object`''"
  using assms by (cases d) (simp add: backtick_def)

theorem formatPropType_object_without_props_witness:
  "pd_type (PropDescriptor ''object'' False None None None (Some ''Foo'')) = ''object''
   \<and> pd_props (PropDescriptor ''object'' False None None None (Some ''Foo'')) = None
   \<and> formatPropType (PropDescriptor ''object'' False None None None (Some ''Foo''))
       = ''`object`''"
  using formatPropType_object_without_props
    [of "PropDescriptor ''object'' False None None None (Some ''Foo'')"]
  by simp

subsection \<open>Array levels\<close>

lemma formatPropType_array_levels:
  assumes "array_levels n base d"
  shows "formatPropType d =
           concat (replicate n ''array<'') @ formatPropType base @ replicate n (CHR ''>'')"
  using assms
proof (induction n arbitrary: d)
  case 0
  then show ?case by simp
next
  case (Suc n)
  obtain type opt dv el ps tn where d: "d = PropDescriptor type opt dv el ps tn"
    by (cases d)
  from Suc.prems d obtain e where e: "type = ''array''" "el = Some e" "array_levels n base e"
    by (auto split: option.splits)
  have "formatPropType d = ''array<'' @ formatPropType e @ ''>''"
    using d e by simp
  also have "\<dots> = ''array<'' @ (concat (replicate n ''array<'') @ formatPropType base
                       @ replicate n (CHR ''>'')) @ ''>''"
    using Suc.IH [OF e(3)] by simp
  also have "\<dots> = concat (replicate (Suc n) ''array<'') @ formatPropType base
                       @ replicate (Suc n) (CHR ''>'')"
    by (simp add: replicate_append_same)
  finally show ?case .
qed

lemma array_depth_array_levels:
  "array_levels n base d \<Longrightarrow> array_depth d = n + array_depth base"
proof (induction n arbitrary: d)
  case 0
  then show ?case by simp
next
  case (Suc n)
  obtain type opt dv el ps tn where d: "d = PropDescriptor type opt dv el ps tn"
    by (cases d)
  from Suc.prems d obtain e where e: "type = ''array''" "el = Some e" "array_levels n base e"
    by (auto split: option.splits)
  from Suc.IH [OF e(3)] show ?case
    using d e by simp
qed

lemma array_levels_wrap_arrays: "array_levels n base (wrap_arrays n base)"
  by (induction n) auto

text \<open>
  On a stack with room for the nested calls the function returns, and what it
  returns does not depend on the room there was; otherwise the innermost call
  that finds no room throws, and the exception passes through every caller.
\<close>

lemma formatPropType_on_stack_eq:
  "formatPropType_on_stack frames d =
     (if array_depth d < frames then Inr (formatPropType d) else Inl (JsError ''RangeError''))"
proof (induction frames d rule: formatPropType_on_stack.induct)
  case (1 propDetails)
  then show ?case by simp
next
  case (2 frames type optional defaultValue elementType props typeName)
  show ?case
  proof (cases "type = ''array'' \<and> elementType \<noteq> None")
    case True
    from "2.IH" [OF True] True show ?thesis
      by simp
  next
    case False
    then show ?thesis by auto
  qed
qed

text \<open>
  C2 (as amended).  For every descriptor whose array nesting fits the call
  stack, \<open>formatPropType\<close> returns a string, and the string is a function of
  the descriptor alone, the same whatever room the stack had.  If the
  descriptor is a base descriptor inside \<open>n\<close> array levels, the string is the
  rendering of the base inside exactly \<open>n\<close> wrappings \<open>array<\<close> ... \<open>>\<close>.
\<close>

theorem formatPropType_on_stack_array_levels:
  "(array_depth d < frames \<longrightarrow>
      formatPropType_on_stack frames d = Inr (formatPropType d))
   \<and> (array_levels n base d \<and> n + array_depth base < frames \<longrightarrow>
      formatPropType_on_stack frames d =
        Inr (concat (replicate n ''array<'') @ formatPropType base @ replicate n (CHR ''>'')))"
proof (intro conjI impI)
  assume "array_depth d < frames"
  then show "formatPropType_on_stack frames d = Inr (formatPropType d)"
    by (simp add: formatPropType_on_stack_eq)
next
  assume "array_levels n base d \<and> n + array_depth base < frames"
  then have a: "array_levels n base d" and room: "n + array_depth base < frames"
    by simp_all
  from array_depth_array_levels [OF a] room have "array_depth d < frames"
    by simp
  then have "formatPropType_on_stack frames d = Inr (formatPropType d)"
    by (simp add: formatPropType_on_stack_eq)
  then show "formatPropType_on_stack frames d =
        Inr (concat (replicate n ''array<'') @ formatPropType base @ replicate n (CHR ''>''))"
    using formatPropType_array_levels [OF a] by simp
qed

theorem formatPropType_on_stack_array_levels_witness:
  "array_depth nested_strings < 3
   \<and> array_levels 2 (PropDescriptor ''string'' False None None None None) nested_strings
   \<and> 2 + array_depth (PropDescriptor ''string'' False None None None None) < 3
   \<and> formatPropType_on_stack 3 nested_strings = Inr ''array<array<`string`>>''
   \<and> formatPropType_on_stack 50 nested_strings = Inr ''array<array<`string`>>''"
  using formatPropType_on_stack_array_levels
    [of nested_strings 3 2 "PropDescriptor ''string'' False None None None None"]
    formatPropType_on_stack_array_levels
    [of nested_strings 50 2 "PropDescriptor ''string'' False None None None None"]
  by (simp add: nested_strings_def numeral_2_eq_2 backtick_def)

text \<open>
  C2 as stated fails: a descriptor with as many array levels as the stack has
  room for nested calls is well formed, and the function throws on it.  With
  room for 10000 calls, 10000 array levels around \<open>string\<close> are too many.
\<close>

theorem formatPropType_on_stack_array_levels_counterexample:
  "formatPropType_on_stack 10000
     (wrap_arrays 10000 (PropDescriptor ''string'' False None None None None))
   = Inl (JsError ''RangeError'')"
proof -
  have "array_depth (wrap_arrays 10000 (PropDescriptor ''string'' False None None None None))
          = 10000 + array_depth (PropDescriptor ''string'' False None None None None)"
    by (rule array_depth_array_levels) (rule array_levels_wrap_arrays)
  then show ?thesis
    by (simp add: formatPropType_on_stack_eq)
qed

section \<open>The component renderer\<close>

text \<open>
  C3.  Without an analysis, or with an analysis whose \<open>components\<close> array is
  empty, the renderer returns the fixed text.
\<close>

theorem generateComponentMarkdown_no_components:
  assumes "analysisResult = None
           \<or> (\<exists>a. analysisResult = Some a \<and> components a = Some [])"
  shows "generateComponentMarkdown analysisResult = ''**No components found**''"
  using assms by (auto simp: generateComponentMarkdown_def)

theorem generateComponentMarkdown_no_components_witness:
  "generateComponentMarkdown None = ''**No components found**''
   \<and> components \<lparr>components = Some []\<rparr> = Some []
   \<and> generateComponentMarkdown (Some \<lparr>components = Some []\<rparr>) = ''**No components found**''"
  using generateComponentMarkdown_no_components [of None]
    generateComponentMarkdown_no_components [of "Some \<lparr>components = Some []\<rparr>"]
  by simp

text \<open>
  C10.  An analysis that is there but has no \<open>components\<close> field gives the
  same fixed text: the second test of the guard catches it before the length
  is read.
\<close>

theorem generateComponentMarkdown_components_absent:
  assumes "components a = None"
  shows "generateComponentMarkdown (Some a) = ''**No components found**''"
  using assms by (simp add: generateComponentMarkdown_def)

theorem generateComponentMarkdown_components_absent_witness:
  "components \<lparr>components = None\<rparr> = None
   \<and> generateComponentMarkdown (Some \<lparr>components = None\<rparr>) = ''**No components found**''"
  using generateComponentMarkdown_components_absent [of "\<lparr>components = None\<rparr>"]
  by simp

subsection \<open>The text is built by appending\<close>











section \<open>The directory scanner\<close>

lemma under_Dir_iff:
  "component_file_under w directory (Dir listable entries) p \<longleftrightarrow>
     listable \<and> (\<exists>entry \<in> set entries. p \<in> entry_files w directory entry)"
proof
  assume "component_file_under w directory (Dir listable entries) p"
  then show "listable \<and> (\<exists>entry \<in> set entries. p \<in> entry_files w directory entry)"
    by cases (force simp: entry_files_def)+
next
  assume r: "listable \<and> (\<exists>entry \<in> set entries. p \<in> entry_files w directory entry)"
  then obtain name node where
    e: "(name, node) \<in> set entries" "p \<in> entry_files w directory (name, node)"
    by auto
  from e(2) consider
      "node = File" "endsWith name ''.jsx'' \<or> endsWith name ''.tsx''"
      "p = path_join w directory name"
    | "isDirectory node" "component_file_under w (path_join w directory name) node p"
    by (auto simp: entry_files_def)
  then show "component_file_under w directory (Dir listable entries) p"
  proof cases
    case 1
    then show ?thesis using r e(1) by (auto intro: file_here)
  next
    case 2
    then show ?thesis using r e(1) by (auto intro: file_below)
  qed
qed

lemma under_File [simp]: "\<not> component_file_under w directory File p"
  by (subst component_file_under.simps) simp

lemma under_Other [simp]: "\<not> component_file_under w directory Other p"
  by (subst component_file_under.simps) simp

lemma entry_files_dir:
  "isDirectory node \<Longrightarrow>
   entry_files w directory (name, node) =
     {p. component_file_under w (path_join w directory name) node p}"
  by (cases node) (auto simp: entry_files_def)

lemma entry_files_file:
  "isFile node \<Longrightarrow> endsWith name ''.jsx'' \<or> endsWith name ''.tsx'' \<Longrightarrow>
   entry_files w directory (name, node) = {path_join w directory name}"
  by (cases node) (auto simp: entry_files_def)

lemma entry_files_none:
  "\<not> isDirectory node \<Longrightarrow>
   \<not> (isFile node \<and> (endsWith name ''.jsx'' \<or> endsWith name ''.tsx'')) \<Longrightarrow>
   entry_files w directory (name, node) = {}"
  by (cases node) (auto simp: entry_files_def)

lemma readdirSync_Inr_iff:
  "readdirSync n = Inr entries \<longleftrightarrow> n = Some (Dir True entries)"
  by (cases n rule: readdirSync.cases) auto

lemma not_under_unlistable:
  "readdirSync (Some node) = Inl error \<Longrightarrow> \<not> component_file_under w directory node p"
  by (cases node) (auto simp: under_Dir_iff split: if_splits)

text \<open>
  Both functions let no exception out, keep what was collected before, and
  add exactly the files that are to be found.
\<close>

lemma scan_collects:
  "\<exists>found. scanDirectory w directory n reactFiles = (None, reactFiles @ found)
      \<and> set found = {p. \<exists>node. n = Some node \<and> component_file_under w directory node p}"
  "\<exists>found. scanEntries w directory entries reactFiles = (None, reactFiles @ found)
      \<and> set found = (\<Union>entry \<in> set entries. entry_files w directory entry)"
proof (induction w directory n reactFiles and w directory entries reactFiles
       rule: scanDirectory_scanEntries.induct)
  case (1 w directory node reactFiles)
  show ?case
  proof (cases "readdirSync node")
    case (Inl error)
    then have "\<And>nd p. node = Some nd \<Longrightarrow> \<not> component_file_under w directory nd p"
      by (auto dest: not_under_unlistable)
    then show ?thesis using Inl by auto
  next
    case (Inr entries)
    from "1.IH" [OF Inr] obtain found where
      found: "scanEntries w directory entries reactFiles = (None, reactFiles @ found)"
        "set found = (\<Union>entry \<in> set entries. entry_files w directory entry)"
      by blast
    from Inr have node: "node = Some (Dir True entries)"
      by (simp add: readdirSync_Inr_iff)
    have "scanDirectory w directory node reactFiles = (None, reactFiles @ found)"
      using Inr found(1) by simp
    moreover have
      "set found = {p. \<exists>nd. node = Some nd \<and> component_file_under w directory nd p}"
      using found(2) node by (auto simp: under_Dir_iff)
    ultimately show ?thesis by blast
  qed
next
  case (2 w directory reactFiles)
  then show ?case by simp
next
  case (3 w directory name node rest reactFiles)
  let ?fullPath = "path_join w directory name"
  let ?ext = "endsWith name ''.jsx'' \<or> endsWith name ''.tsx''"
  consider (is_dir) "isDirectory node"
    | (is_file) "\<not> isDirectory node" "isFile node \<and> ?ext"
    | (neither) "\<not> isDirectory node" "\<not> (isFile node \<and> ?ext)"
    by blast
  then show ?case
  proof cases
    case is_dir
    from "3.IH"(1) [OF refl is_dir] obtain f1 where
      f1: "scanDirectory w ?fullPath (Some node) reactFiles = (None, reactFiles @ f1)"
        "set f1 = {p. component_file_under w ?fullPath node p}"
      by auto
    from "3.IH"(2) [OF refl is_dir f1(1) [symmetric] refl] obtain f2 where
      f2: "scanEntries w directory rest (reactFiles @ f1) = (None, (reactFiles @ f1) @ f2)"
        "set f2 = (\<Union>entry \<in> set rest. entry_files w directory entry)"
      by blast
    have "scanEntries w directory ((name, node) # rest) reactFiles
            = (None, reactFiles @ (f1 @ f2))"
      using is_dir f1(1) f2(1) by simp
    moreover have
      "set (f1 @ f2) = (\<Union>entry \<in> set ((name, node) # rest). entry_files w directory entry)"
      using f1(2) f2(2) by (simp add: entry_files_dir [OF is_dir])
    ultimately show ?thesis by blast
  next
    case is_file
    from "3.IH"(3) [OF refl is_file(1) is_file(2)] obtain f2 where
      f2: "scanEntries w directory rest (reactFiles @ [?fullPath])
             = (None, (reactFiles @ [?fullPath]) @ f2)"
        "set f2 = (\<Union>entry \<in> set rest. entry_files w directory entry)"
      by blast
    have "scanEntries w directory ((name, node) # rest) reactFiles
            = (None, reactFiles @ (?fullPath # f2))"
      using is_file f2(1) by simp
    moreover have
      "set (?fullPath # f2)
         = (\<Union>entry \<in> set ((name, node) # rest). entry_files w directory entry)"
      using f2(2) is_file by (simp add: entry_files_file)
    ultimately show ?thesis by blast
  next
    case neither
    from "3.IH"(4) [OF refl neither(1) neither(2)] obtain f2 where
      f2: "scanEntries w directory rest reactFiles = (None, reactFiles @ f2)"
        "set f2 = (\<Union>entry \<in> set rest. entry_files w directory entry)"
      by blast
    have "scanEntries w directory ((name, node) # rest) reactFiles = (None, reactFiles @ f2)"
      using neither f2(1) by auto
    moreover have
      "set f2 = (\<Union>entry \<in> set ((name, node) # rest). entry_files w directory entry)"
      using f2(2) neither by (simp add: entry_files_none)
    ultimately show ?thesis by blast
  qed
qed

text \<open>
  C4.  For every file system and every sub-folder, \<open>listReactFiles\<close> returns
  (it raises nothing) a list whose elements are exactly the paths of the
  regular files with the extension \<open>.jsx\<close> or \<open>.tsx\<close> that are reached from
  the folder through directories that can be listed, of any name.  A
  directory that cannot be listed contributes nothing and takes nothing away
  from the directories beside it.
\<close>

theorem listReactFiles_exact:
  "\<exists>files. listReactFiles w subFolder = Inr files \<and>
     set files =
       {p. \<exists>node. fs_at w (path_join w PROJECT_ROOT subFolder) = Some node \<and>
             component_file_under w (path_join w PROJECT_ROOT subFolder) node p}"
proof -
  from scan_collects(1) [of w "path_join w PROJECT_ROOT subFolder"
      "fs_at w (path_join w PROJECT_ROOT subFolder)" "[]"]
  obtain found where
    "scanDirectory w (path_join w PROJECT_ROOT subFolder)
        (fs_at w (path_join w PROJECT_ROOT subFolder)) [] = (None, found)"
    "set found = {p. \<exists>node. fs_at w (path_join w PROJECT_ROOT subFolder) = Some node \<and>
             component_file_under w (path_join w PROJECT_ROOT subFolder) node p}"
    by auto
  then show ?thesis
    by (simp add: listReactFiles_def)
qed

lemma listReactFiles_shop:
  "listReactFiles sample_world ''shop'' =
     Inr [''/Users/azer/code/shop/App.tsx'',
          ''/Users/azer/code/shop/.storybook/Preview.jsx'',
          ''/Users/azer/code/shop/ui/Card.jsx'',
          ''/Users/azer/code/shop/ui/forms/Input.tsx'']"
  by (simp add: listReactFiles_def sample_world_def shop_tree_def sample_join_def
      PROJECT_ROOT_def endsWith_def)

theorem listReactFiles_exact_witness:
  "listReactFiles sample_world ''shop'' =
     Inr [''/Users/azer/code/shop/App.tsx'',
          ''/Users/azer/code/shop/.storybook/Preview.jsx'',
          ''/Users/azer/code/shop/ui/Card.jsx'',
          ''/Users/azer/code/shop/ui/forms/Input.tsx'']
   \<and> {p. component_file_under sample_world ''/Users/azer/code/shop'' shop_tree p} =
       {''/Users/azer/code/shop/App.tsx'',
        ''/Users/azer/code/shop/.storybook/Preview.jsx'',
        ''/Users/azer/code/shop/ui/Card.jsx'',
        ''/Users/azer/code/shop/ui/forms/Input.tsx''}
   \<and> \<not> component_file_under sample_world ''/Users/azer/code/shop'' shop_tree
         ''/Users/azer/code/shop/locked/Secret.tsx''"
proof -
  have at: "path_join sample_world PROJECT_ROOT ''shop'' = ''/Users/azer/code/shop''"
    by (simp add: sample_world_def sample_join_def PROJECT_ROOT_def)
  have tree: "fs_at sample_world ''/Users/azer/code/shop'' = Some shop_tree"
    by (simp add: sample_world_def)
  from listReactFiles_exact [of sample_world "''shop''"]
  have eq: "{p. component_file_under sample_world ''/Users/azer/code/shop'' shop_tree p} =
       {''/Users/azer/code/shop/App.tsx'',
        ''/Users/azer/code/shop/.storybook/Preview.jsx'',
        ''/Users/azer/code/shop/ui/Card.jsx'',
        ''/Users/azer/code/shop/ui/forms/Input.tsx''}"
    unfolding at tree listReactFiles_shop by auto
  have "''/Users/azer/code/shop/locked/Secret.tsx'' \<notin>
       {''/Users/azer/code/shop/App.tsx'',
        ''/Users/azer/code/shop/.storybook/Preview.jsx'',
        ''/Users/azer/code/shop/ui/Card.jsx'',
        ''/Users/azer/code/shop/ui/forms/Input.tsx''}"
    by simp
  then have "\<not> component_file_under sample_world ''/Users/azer/code/shop'' shop_tree
         ''/Users/azer/code/shop/locked/Secret.tsx''"
    unfolding eq [symmetric] by simp
  then show ?thesis
    using eq listReactFiles_shop by blast
qed

section \<open>The file analyzer\<close>

text \<open>
  C6.  For every path, \<open>analyzeReactFileContents\<close> raises nothing: it returns
  what the analyzer returned for the base name and the text of the file, and
  it returns \<open>null\<close> when the file cannot be read or the analyzer throws.
\<close>

theorem analyzeReactFileContents_isolates:
  "analyzeReactFileContents w filePath =
     Inr (case readFileSync w filePath of
            Inl error \<Rightarrow> None
          | Inr fileContent \<Rightarrow>
              (case analyzeReactFile w (path_basename w filePath) fileContent of
                 Inl error \<Rightarrow> None
               | Inr result \<Rightarrow> result))"
  by (simp add: analyzeReactFileContents_def try_catch_def and_then_def split: sum.splits)

theorem analyzeReactFileContents_isolates_witness:
  "analyzeReactFileContents sample_world ''/Users/azer/code/shop/App.tsx''
     = Inr (Some button_analysis)
   \<and> analyzeReactFileContents sample_world ''/Users/azer/code/shop/ui/Card.jsx'' = Inr None
   \<and> analyzeReactFileContents sample_world ''/Users/azer/code/shop/Gone.tsx'' = Inr None"
  using analyzeReactFileContents_isolates [of sample_world "''/Users/azer/code/shop/App.tsx''"]
    analyzeReactFileContents_isolates [of sample_world "''/Users/azer/code/shop/ui/Card.jsx''"]
    analyzeReactFileContents_isolates [of sample_world "''/Users/azer/code/shop/Gone.tsx''"]
  by (simp add: sample_world_def sample_analyzer_def sample_basename_def)

section \<open>The project enumerator\<close>

lemma startsWith_dot: "startsWith name ''.'' \<longleftrightarrow> name \<noteq> [] \<and> hd name = CHR ''.''"
  by (cases name) (auto simp: startsWith_def)

lemma names_of_kept_entries:
  "map fst (filter (\<lambda>entry. isDirectory (snd entry) \<and> \<not> startsWith (fst entry) ''.'') entries)
     = [name. (name, node) \<leftarrow> entries, isDirectory node \<and> (name = [] \<or> hd name \<noteq> CHR ''.'')]"
  by (induction entries) (auto simp: startsWith_dot)

text \<open>
  C8.  When the root folder can be listed, \<open>listProjects\<close> returns the names
  of its entries that are directories and do not begin with a dot, in the
  order of the listing; when listing the root fails it returns the empty
  list.  It raises nothing in either case.
\<close>

theorem listProjects_names:
  "(readdirSync (fs_at w PROJECT_ROOT) = Inr entries \<longrightarrow>
      listProjects w =
        Inr [name. (name, node) \<leftarrow> entries,
               isDirectory node \<and> (name = [] \<or> hd name \<noteq> CHR ''.'')])
   \<and> (readdirSync (fs_at w PROJECT_ROOT) = Inl error \<longrightarrow> listProjects w = Inr [])"
  by (simp add: listProjects_def try_catch_def and_then_def names_of_kept_entries)

theorem listProjects_names_witness:
  "readdirSync (fs_at sample_world PROJECT_ROOT) =
     Inr [(''.git'', Dir True []), (''shop'', shop_tree), (''notes.txt'', File),
          (''drafts'', drafts_tree), (''.env'', File), (''blog'', Dir False [])]
   \<and> listProjects sample_world = Inr [''shop'', ''drafts'', ''blog'']
   \<and> readdirSync (fs_at rootless_world PROJECT_ROOT) = Inl (JsError ''ENOENT'')
   \<and> listProjects rootless_world = Inr []"
  using listProjects_names [of sample_world
      "[(''.git'', Dir True []), (''shop'', shop_tree), (''notes.txt'', File),
        (''drafts'', drafts_tree), (''.env'', File), (''blog'', Dir False [])]"
      "JsError ''ENOENT''"]
    listProjects_names [of rootless_world "[]" "JsError ''ENOENT''"]
  by (simp add: sample_world_def rootless_world_def root_tree_def shop_tree_def
      drafts_tree_def PROJECT_ROOT_def)

section \<open>The documentation assembler\<close>

text \<open>
  C5.  For every project in which the scan finds no component file,
  \<open>generateProjectDocs\<close> returns the heading with the name of the project,
  an empty line and the line \<open>No React components found.\<close>
\<close>

theorem generateProjectDocs_no_files:
  assumes "listReactFiles w projectName = Inr []"
  shows "generateProjectDocs w projectName =
           Inr (''# '' @ projectName @ newline @ newline @ ''No React components found.'')"
  using assms by (simp add: generateProjectDocs_def and_then_def)

theorem generateProjectDocs_no_files_witness:
  "listReactFiles sample_world ''drafts'' = Inr []
   \<and> generateProjectDocs sample_world ''drafts'' =
       Inr (''# drafts'' @ newline @ newline @ ''No React components found.'')"
proof -
  have none: "listReactFiles sample_world ''drafts'' = Inr []"
    by (simp add: listReactFiles_def sample_world_def drafts_tree_def sample_join_def
        PROJECT_ROOT_def endsWith_def)
  from generateProjectDocs_no_files [OF none] none show ?thesis
    by simp
qed

end
